theory Spec2Isabelle
  imports Main
begin

section \<open>Values that cross the HTTP boundary\<close>

text \<open>
  \<^verbatim>\<open>src/contexts/AuthContext.tsx\<close> reads every response with \<^verbatim>\<open>response.json()\<close>, whose
  result has the TypeScript type \<^verbatim>\<open>any\<close>: nothing checks at run time that a body has
  the shape the interfaces promise. The model therefore keeps the parsed body as a JSON
  value and gives property access, truthiness and string conversion their JavaScript
  meaning.

  The module only tests a number for truthiness and converts it to a string, so a
  number is kept as the text \<^verbatim>\<open>String\<close> gives it: \<^verbatim>\<open>0\<close> for both zeros, \<^verbatim>\<open>1.5\<close>,
  \<^verbatim>\<open>1e+21\<close>, \<^verbatim>\<open>Infinity\<close> for a numeral too large for a double. A payload that is no
  such text stands for no number. An object is the list of its own properties, keys
  distinct, as \<^verbatim>\<open>JSON.parse\<close> builds it.
\<close>

datatype json =
    JNull
  | JBool bool
  | JNum string
  | JStr string
  | JArr "json list"
  | JObj "(string \<times> json) list"

text \<open>A JavaScript value as this module meets it: a parsed JSON value, or \<^verbatim>\<open>undefined\<close>
  (the result of reading a property that is not there).\<close>

datatype jsval = Undefined | Json json

text \<open>What a rejected promise or a \<^verbatim>\<open>throw\<close> carries: \<^verbatim>\<open>new Error(message)\<close>, the
  \<^verbatim>\<open>SyntaxError\<close> of \<^verbatim>\<open>response.json()\<close> on a body that is not JSON, the \<^verbatim>\<open>TypeError\<close> of
  reading a property of \<^verbatim>\<open>null\<close>, and the rejection of \<^verbatim>\<open>fetch\<close> itself when the network
  fails.\<close>

datatype exn = Error string | SyntaxError | TypeError | FetchFailed

text \<open>\<^verbatim>\<open>!!v\<close>: JavaScript truthiness.\<close>

fun truthy :: "jsval \<Rightarrow> bool" where
  "truthy Undefined = False"
| "truthy (Json JNull) = False"
| "truthy (Json (JBool b)) = b"
| "truthy (Json (JNum n)) = (n \<noteq> ''0'')"
| "truthy (Json (JStr s)) = (s \<noteq> [])"
| "truthy (Json (JArr xs)) = True"
| "truthy (Json (JObj kvs)) = True"

text \<open>\<^verbatim>\<open>data.key\<close> for the three keys the module reads (\<^verbatim>\<open>user\<close>, \<^verbatim>\<open>token\<close>,
  \<^verbatim>\<open>message\<close>): none of them is inherited from a prototype, so the read finds an own
  property of an object or nothing. Reading a property of \<^verbatim>\<open>null\<close> throws; reading one
  of a boolean, number, string or array yields \<^verbatim>\<open>undefined\<close>.\<close>

fun get_prop :: "json \<Rightarrow> string \<Rightarrow> exn + jsval" where
  "get_prop JNull k = Inl TypeError"
| "get_prop (JObj kvs) k = Inr (case map_of kvs k of None \<Rightarrow> Undefined | Some v \<Rightarrow> Json v)"
| "get_prop (JBool b) k = Inr Undefined"
| "get_prop (JNum n) k = Inr Undefined"
| "get_prop (JStr s) k = Inr Undefined"
| "get_prop (JArr xs) k = Inr Undefined"

text \<open>\<^verbatim>\<open>String(v)\<close>, the conversion \<^verbatim>\<open>localStorage.setItem\<close> and \<^verbatim>\<open>new Error\<close> apply to
  their argument. It can throw: an object converts through its \<^verbatim>\<open>toString\<close> property,
  and a parsed object with an own key \<^verbatim>\<open>toString\<close> holds a JSON value there, which is
  not callable; the fallback \<^verbatim>\<open>valueOf\<close> yields no primitive either, so the conversion
  ends in a \<^verbatim>\<open>TypeError\<close>. Without that key the inherited method gives
  \<^verbatim>\<open>[object Object]\<close>. An array joins the conversions of its elements with commas,
  \<^verbatim>\<open>null\<close> counting as the empty string, and throws when one of them throws. Limits of
  the engine (the stack depth, on arrays nested very deeply) are not modelled.\<close>

fun join_comma :: "string list \<Rightarrow> string" where
  "join_comma [] = []"
| "join_comma [s] = s"
| "join_comma (s # t # ss) = s @ '','' @ join_comma (t # ss)"

text \<open>The results of the elements in order, up to the first that throws.\<close>

fun collect :: "(exn + string) list \<Rightarrow> exn + string list" where
  "collect [] = Inr []"
| "collect (Inl e # rs) = Inl e"
| "collect (Inr s # rs) = (case collect rs of Inl e \<Rightarrow> Inl e | Inr ss \<Rightarrow> Inr (s # ss))"

fun json_to_string :: "json \<Rightarrow> exn + string" where
  "json_to_string JNull = Inr ''null''"
| "json_to_string (JBool b) = Inr (if b then ''true'' else ''false'')"
| "json_to_string (JNum n) = Inr n"
| "json_to_string (JStr s) = Inr s"
| "json_to_string (JArr xs) =
     (case collect (map (\<lambda>x. if x = JNull then Inr [] else json_to_string x) xs) of
        Inl e \<Rightarrow> Inl e
      | Inr ss \<Rightarrow> Inr (join_comma ss))"
| "json_to_string (JObj kvs) =
     (if map_of kvs ''toString'' = None then Inr ''[object Object]'' else Inl TypeError)"

fun to_string :: "jsval \<Rightarrow> exn + string" where
  "to_string Undefined = Inr ''undefined''"
| "to_string (Json j) = json_to_string j"

text \<open>\<^verbatim>\<open>a || b\<close>.\<close>

definition js_or :: "jsval \<Rightarrow> jsval \<Rightarrow> jsval" where
  "js_or a b = (if truthy a then a else b)"

text \<open>The \<^verbatim>\<open>User\<close> interface (lines 9 to 15): the values a well-typed principal has.\<close>

definition has_string :: "(string \<times> json) list \<Rightarrow> string \<Rightarrow> bool" where
  "has_string kvs k = (case map_of kvs k of Some (JStr s) \<Rightarrow> True | _ \<Rightarrow> False)"

fun is_User :: "json \<Rightarrow> bool" where
  "is_User (JObj kvs) =
     (has_string kvs ''id'' \<and> has_string kvs ''name'' \<and> has_string kvs ''email''
      \<and> (map_of kvs ''role'' = Some (JStr ''parent'') \<or> map_of kvs ''role'' = Some (JStr ''child''))
      \<and> (map_of kvs ''subscription'' = Some (JStr ''free'')
         \<or> map_of kvs ''subscription'' = Some (JStr ''basic'')
         \<or> map_of kvs ''subscription'' = Some (JStr ''premium'')
         \<or> map_of kvs ''subscription'' = Some JNull))"
| "is_User j = False"

section \<open>The network and the browser state\<close>

text \<open>A request as \<^verbatim>\<open>fetch\<close> receives it. The body is kept as the value handed to
  \<^verbatim>\<open>JSON.stringify\<close>.\<close>

record request =
  url :: string
  http_method :: string
  headers :: "(string \<times> string) list"
  body :: "json option"

text \<open>A response: its status, and what \<^verbatim>\<open>response.json()\<close> yields (\<open>None\<close> when the
  body is not valid JSON and the call rejects with a \<^verbatim>\<open>SyntaxError\<close>).\<close>

record response =
  status :: nat
  json_body :: "json option"

text \<open>\<^verbatim>\<open>response.ok\<close> of the Fetch API: the status is in the range 200 to 299.\<close>

definition ok :: "response \<Rightarrow> bool" where
  "ok r = (200 \<le> status r \<and> status r \<le> 299)"

text \<open>How the promise of \<^verbatim>\<open>fetch\<close> settles. A request that never settles has no
  continuation: the operation that sent it does nothing more.\<close>

datatype fetch_outcome = Rejected | Resolved response

text \<open>What the module does to the outside world, in order: writes and removals on
  \<^verbatim>\<open>localStorage\<close>, and requests sent.\<close>

datatype effect = SetItem string string | RemoveItem string | Fetch request

text \<open>The state the provider works on: the React state \<^verbatim>\<open>user\<close> (declared
  \<^verbatim>\<open>User | null\<close>, holding at run time whatever \<^verbatim>\<open>setUser\<close> was given),
  \<^verbatim>\<open>localStorage\<close>, and the trace of effects so far.\<close>

record state =
  user :: jsval
  storage :: "string \<rightharpoonup> string"
  effects :: "effect list"

text \<open>\<^verbatim>\<open>useState<User | null>(null)\<close>: the state at mount, over a given \<^verbatim>\<open>localStorage\<close>.\<close>

definition initial :: "(string \<rightharpoonup> string) \<Rightarrow> state" where
  "initial store = \<lparr>user = Json JNull, storage = store, effects = []\<rparr>"

definition requests :: "state \<Rightarrow> request list" where
  "requests st = concat (map (\<lambda>e. case e of Fetch r \<Rightarrow> [r] | _ \<Rightarrow> []) (effects st))"

definition store_writes :: "state \<Rightarrow> effect list" where
  "store_writes st = filter (\<lambda>e. case e of Fetch r \<Rightarrow> False | _ \<Rightarrow> True) (effects st)"

section \<open>The provider's operations\<close>

text \<open>The three helpers of lines 39 to 49, on the key \<^verbatim>\<open>authToken\<close>. \<^verbatim>\<open>saveToken\<close> declares
  its argument a string but receives \<^verbatim>\<open>data.token\<close> unchecked; \<^verbatim>\<open>setItem\<close> converts the
  argument to a string before it stores anything, and throws what the conversion throws.
  Apart from that, storage calls are taken to succeed (a full or disabled
  \<^verbatim>\<open>localStorage\<close> is not modelled).\<close>

definition saveToken :: "jsval \<Rightarrow> state \<Rightarrow> exn + state" where
  "saveToken token st =
     (case to_string token of
        Inl e \<Rightarrow> Inl e
      | Inr s \<Rightarrow>
          Inr (st\<lparr>storage := (storage st)(''authToken'' \<mapsto> s),
                  effects := effects st @ [SetItem ''authToken'' s]\<rparr>))"

definition getToken :: "state \<Rightarrow> string option" where
  "getToken st = storage st ''authToken''"

definition removeToken :: "state \<Rightarrow> state" where
  "removeToken st =
     st\<lparr>storage := (storage st)(''authToken'' := None),
        effects := effects st @ [RemoveItem ''authToken'']\<rparr>"

definition setUser :: "jsval \<Rightarrow> state \<Rightarrow> state" where
  "setUser u st = st\<lparr>user := u\<rparr>"

text \<open>\<^verbatim>\<open>fetch(...)\<close>: the request is sent, and the network, a parameter of the model,
  decides how the promise settles.\<close>

definition fetch :: "(request \<Rightarrow> fetch_outcome) \<Rightarrow> request \<Rightarrow> state \<Rightarrow> fetch_outcome \<times> state" where
  "fetch net req st = (net req, st\<lparr>effects := effects st @ [Fetch req]\<rparr>)"

subsection \<open>fetchUserFromToken\<close>

definition me_request :: "string \<Rightarrow> request" where
  "me_request token =
     \<lparr>url = ''/api/auth/me'', http_method = ''GET'',
      headers = [(''Authorization'', ''Bearer '' @ token)], body = None\<rparr>"

text \<open>The \<^verbatim>\<open>try\<close> block after \<^verbatim>\<open>await fetch\<close> has settled (lines 58 to 65).\<close>

definition fetchUserFromToken_try :: "fetch_outcome \<Rightarrow> state \<Rightarrow> (exn + unit) \<times> state" where
  "fetchUserFromToken_try outcome st =
     (case outcome of
        Rejected \<Rightarrow> (Inl FetchFailed, st)
      | Resolved response \<Rightarrow>
          if \<not> ok response then (Inr (), setUser (Json JNull) (removeToken st))
          else (case json_body response of
                  None \<Rightarrow> (Inl SyntaxError, st)
                | Some data \<Rightarrow>
                    (case get_prop data ''user'' of
                       Inl e \<Rightarrow> (Inl e, st)
                     | Inr u \<Rightarrow> (Inr (), setUser u st))))"

text \<open>The whole continuation: the \<^verbatim>\<open>try\<close> block, and the \<^verbatim>\<open>catch\<close> (lines 66 to 69) on
  anything it throws. It runs on the state as it is when the response arrives.\<close>

definition fetchUserFromToken_settle :: "fetch_outcome \<Rightarrow> state \<Rightarrow> (exn + unit) \<times> state" where
  "fetchUserFromToken_settle outcome st =
     (case fetchUserFromToken_try outcome st of
        (Inl e, st') \<Rightarrow> (Inr (), setUser (Json JNull) (removeToken st'))
      | (Inr u, st') \<Rightarrow> (Inr (), st'))"

text \<open>\<^verbatim>\<open>fetchUserFromToken(token)\<close> run to completion with nothing in between (the
  spec's \<^verbatim>\<open>restoreSession\<close>).\<close>

definition fetchUserFromToken :: "(request \<Rightarrow> fetch_outcome) \<Rightarrow> string \<Rightarrow> state \<Rightarrow> (exn + unit) \<times> state" where
  "fetchUserFromToken net token st =
     (case fetch net (me_request token) st of
        (outcome, st') \<Rightarrow> fetchUserFromToken_settle outcome st')"

subsection \<open>The mount effect\<close>

text \<open>The \<^verbatim>\<open>useEffect\<close> callback of lines 73 to 78 (the spec's \<^verbatim>\<open>initialize\<close>). A stored
  empty string is falsy, like no token at all. The promise of \<^verbatim>\<open>fetchUserFromToken\<close> is
  dropped.\<close>

definition initialize :: "(request \<Rightarrow> fetch_outcome) \<Rightarrow> state \<Rightarrow> state" where
  "initialize net st =
     (case getToken st of
        None \<Rightarrow> st
      | Some token \<Rightarrow> if token = [] then st else snd (fetchUserFromToken net token st))"

subsection \<open>login and register\<close>

definition login_request :: "string \<Rightarrow> string \<Rightarrow> request" where
  "login_request email password =
     \<lparr>url = ''/api/auth/login'', http_method = ''POST'',
      headers = [(''Content-Type'', ''application/json'')],
      body = Some (JObj [(''email'', JStr email), (''password'', JStr password)])\<rparr>"

definition register_request :: "string \<Rightarrow> string \<Rightarrow> string \<Rightarrow> request" where
  "register_request name email password =
     \<lparr>url = ''/api/auth/register'', http_method = ''POST'',
      headers = [(''Content-Type'', ''application/json'')],
      body = Some (JObj [(''name'', JStr name), (''email'', JStr email),
                         (''password'', JStr password)])\<rparr>"

text \<open>Lines 87 to 96 and 106 to 115 are the same text but for the fallback message; the
  parameter \<open>fallback\<close> is that message. No \<^verbatim>\<open>try\<close> surrounds them: whatever is thrown
  rejects the promise the caller holds. \<^verbatim>\<open>new Error(m)\<close> converts \<^verbatim>\<open>m\<close> to a string,
  and \<^verbatim>\<open>saveToken\<close> its token: when the conversion throws, that \<^verbatim>\<open>TypeError\<close> is what
  the caller receives, and the statements after it do not run.\<close>

definition auth_settle :: "string \<Rightarrow> fetch_outcome \<Rightarrow> state \<Rightarrow> (exn + unit) \<times> state" where
  "auth_settle fallback outcome st =
     (case outcome of
        Rejected \<Rightarrow> (Inl FetchFailed, st)
      | Resolved response \<Rightarrow>
          if \<not> ok response then
            (case json_body response of
               None \<Rightarrow> (Inl SyntaxError, st)
             | Some errorData \<Rightarrow>
                 (case get_prop errorData ''message'' of
                    Inl e \<Rightarrow> (Inl e, st)
                  | Inr m \<Rightarrow>
                      (case to_string (js_or m (Json (JStr fallback))) of
                         Inl e \<Rightarrow> (Inl e, st)
                       | Inr s \<Rightarrow> (Inl (Error s), st))))
          else
            (case json_body response of
               None \<Rightarrow> (Inl SyntaxError, st)
             | Some data \<Rightarrow>
                 (case get_prop data ''token'' of
                    Inl e \<Rightarrow> (Inl e, st)
                  | Inr token \<Rightarrow>
                      (case saveToken token st of
                         Inl e \<Rightarrow> (Inl e, st)
                       | Inr st1 \<Rightarrow>
                           (case get_prop data ''user'' of
                              Inl e \<Rightarrow> (Inl e, st1)
                            | Inr u \<Rightarrow> (Inr (), setUser u st1))))))"

definition login_settle :: "fetch_outcome \<Rightarrow> state \<Rightarrow> (exn + unit) \<times> state" where
  "login_settle = auth_settle ''Login failed''"

definition register_settle :: "fetch_outcome \<Rightarrow> state \<Rightarrow> (exn + unit) \<times> state" where
  "register_settle = auth_settle ''Registration failed''"

definition login :: "(request \<Rightarrow> fetch_outcome) \<Rightarrow> string \<Rightarrow> string \<Rightarrow> state \<Rightarrow> (exn + unit) \<times> state" where
  "login net email password st =
     (case fetch net (login_request email password) st of
        (outcome, st') \<Rightarrow> login_settle outcome st')"

definition register :: "(request \<Rightarrow> fetch_outcome) \<Rightarrow> string \<Rightarrow> string \<Rightarrow> string \<Rightarrow> state \<Rightarrow> (exn + unit) \<times> state" where
  "register net name email password st =
     (case fetch net (register_request name email password) st of
        (outcome, st') \<Rightarrow> register_settle outcome st')"

subsection \<open>logout\<close>

definition logout :: "state \<Rightarrow> state" where
  "logout st = setUser (Json JNull) (removeToken st)"

subsection \<open>The context value\<close>

text \<open>Line 128: \<^verbatim>\<open>isAuthenticated: !!user\<close>, computed from \<^verbatim>\<open>user\<close> at every render.\<close>

definition isAuthenticated :: "state \<Rightarrow> bool" where
  "isAuthenticated st = truthy (user st)"

section \<open>Running the operations one after another\<close>

text \<open>What a user interface can trigger: the mount effect, and the three functions of
  the context value. \<open>run\<close> takes each to completion before the next starts.\<close>

datatype op = Initialize | Login string string | Register string string string | Logout

fun run :: "(request \<Rightarrow> fetch_outcome) \<Rightarrow> op \<Rightarrow> state \<Rightarrow> (exn + unit) \<times> state" where
  "run net Initialize st = (Inr (), initialize net st)"
| "run net (Login email password) st = login net email password st"
| "run net (Register name email password) st = register net name email password st"
| "run net Logout st = (Inr (), logout st)"

text \<open>A session: operations in order, each with the network behaviour it meets.\<close>

fun run_all :: "((request \<Rightarrow> fetch_outcome) \<times> op) list \<Rightarrow> state \<Rightarrow> state" where
  "run_all [] st = st"
| "run_all ((net, x) # xs) st = run_all xs (snd (run net x st))"

section \<open>Notions of the specification\<close>

text \<open>Token and user are consistent: with no token stored, \<^verbatim>\<open>user\<close> is \<^verbatim>\<open>null\<close>.\<close>

definition consistent :: "state \<Rightarrow> bool" where
  "consistent st = (getToken st = None \<longrightarrow> user st = Json JNull)"

text \<open>A well-formed success of \<^verbatim>\<open>GET /api/auth/me\<close>: a 2xx status and a body \<^verbatim>\<open>{user}\<close>
  whose \<^verbatim>\<open>user\<close> is a \<^verbatim>\<open>User\<close>.\<close>

definition me_success :: "fetch_outcome \<Rightarrow> bool" where
  "me_success outcome =
     (case outcome of
        Rejected \<Rightarrow> False
      | Resolved r \<Rightarrow>
          ok r \<and> (case json_body r of
                    Some (JObj kvs) \<Rightarrow>
                      (case map_of kvs ''user'' of Some u \<Rightarrow> is_User u | None \<Rightarrow> False)
                  | _ \<Rightarrow> False))"

text \<open>The principal of the specification's registration scenario.\<close>

definition ann :: json where
  "ann = JObj [(''id'', JStr ''1''), (''name'', JStr ''Ann''), (''email'', JStr ''ann@x.com''),
               (''role'', JStr ''parent''), (''subscription'', JNull)]"

section \<open>Basic facts\<close>

lemmas provider_defs =
  fetch_def fetchUserFromToken_def fetchUserFromToken_settle_def fetchUserFromToken_try_def
  initialize_def auth_settle_def login_settle_def register_settle_def login_def register_def
  logout_def saveToken_def getToken_def removeToken_def setUser_def isAuthenticated_def
  requests_def store_writes_def

lemma is_User_ann: "is_User ann"
  by (simp add: ann_def has_string_def)

lemma is_User_truthy: "is_User u \<Longrightarrow> truthy (Json u)"
  by (cases u) simp_all

text \<open>String conversion at work in \<^verbatim>\<open>login\<close>. A token that cannot be converted makes
  \<^verbatim>\<open>setItem\<close> throw: the call fails with the \<^verbatim>\<open>TypeError\<close>, nothing is stored and
  \<^verbatim>\<open>user\<close> is not set. A numeric token is stored as \<^verbatim>\<open>String\<close> prints it.\<close>

lemma login_token_unconvertible:
  "login (\<lambda>req. Resolved \<lparr>status = 200,
             json_body = Some (JObj [(''token'', JObj [(''toString'', JNum ''1'')]),
                                     (''user'', ann)])\<rparr>)
     ''ann@x.com'' ''pw'' (initial Map.empty)
   = (Inl TypeError,
      \<lparr>user = Json JNull, storage = Map.empty,
       effects = [Fetch (login_request ''ann@x.com'' ''pw'')]\<rparr>)"
  by (simp add: provider_defs ok_def initial_def)

lemma login_token_number:
  "getToken (snd (login (\<lambda>req. Resolved \<lparr>status = 200,
             json_body = Some (JObj [(''token'', JNum ''1e+21''), (''user'', ann)])\<rparr>)
     ''ann@x.com'' ''pw'' (initial Map.empty))) = Some ''1e+21''"
  by (simp add: provider_defs ok_def initial_def)

section \<open>Session restoration\<close>

text \<open>
  Claim C1, as the code has it. \<^verbatim>\<open>fetchUserFromToken\<close> never throws, whatever the
  network does. When \<^verbatim>\<open>fetch\<close> rejects, when the status is not 2xx, when the body is
  not valid JSON, or when the body is the JSON value \<^verbatim>\<open>null\<close>, it removes the stored
  token and sets \<^verbatim>\<open>user\<close> to \<^verbatim>\<open>null\<close>. On every other outcome, a 2xx status with a
  body that is valid JSON other than \<^verbatim>\<open>null\<close>, well-formed or not, \<^verbatim>\<open>user\<close> becomes
  the body's \<^verbatim>\<open>user\<close> property (\<^verbatim>\<open>undefined\<close> when there is none) and the store is
  left as it was: the request is the only effect.
\<close>

theorem C1_restore_failure_clears:
  "fst (fetchUserFromToken net token st) = Inr ()
   \<and> (net (me_request token) = Rejected
        \<or> (\<exists>r. net (me_request token) = Resolved r
               \<and> (\<not> ok r \<or> json_body r = None \<or> json_body r = Some JNull))
      \<longrightarrow> getToken (snd (fetchUserFromToken net token st)) = None
          \<and> user (snd (fetchUserFromToken net token st)) = Json JNull)
   \<and> (\<forall>r d. net (me_request token) = Resolved r \<and> ok r \<and> json_body r = Some d \<and> d \<noteq> JNull
      \<longrightarrow> get_prop d ''user'' = Inr (user (snd (fetchUserFromToken net token st)))
          \<and> storage (snd (fetchUserFromToken net token st)) = storage st
          \<and> store_writes (snd (fetchUserFromToken net token st)) = store_writes st
          \<and> effects (snd (fetchUserFromToken net token st))
              = effects st @ [Fetch (me_request token)])"
proof -
  have never_throws: "fst (fetchUserFromToken net token st) = Inr ()"
    by (simp add: fetchUserFromToken_def fetch_def fetchUserFromToken_settle_def
             split: prod.splits sum.splits)
  have clears:
    "net (me_request token) = Rejected
       \<or> (\<exists>r. net (me_request token) = Resolved r
              \<and> (\<not> ok r \<or> json_body r = None \<or> json_body r = Some JNull))
     \<longrightarrow> getToken (snd (fetchUserFromToken net token st)) = None
         \<and> user (snd (fetchUserFromToken net token st)) = Json JNull"
    by (auto simp: provider_defs)
  have keeps:
    "get_prop d ''user'' = Inr (user (snd (fetchUserFromToken net token st)))
     \<and> storage (snd (fetchUserFromToken net token st)) = storage st
     \<and> store_writes (snd (fetchUserFromToken net token st)) = store_writes st
     \<and> effects (snd (fetchUserFromToken net token st)) = effects st @ [Fetch (me_request token)]"
    if "net (me_request token) = Resolved r" and "ok r" and "json_body r = Some d"
      and "d \<noteq> JNull" for r d
    using that by (cases d) (simp_all add: provider_defs)
  from never_throws clears keeps show ?thesis by blast
qed

text \<open>Two instances: the stored token \<^verbatim>\<open>t\<close> is answered with status 401; and it is
  answered with status 200 and the body \<^verbatim>\<open>[{"user": 1}]\<close>, an array.\<close>

theorem C1_restore_failure_clears_witness:
  "fst (fetchUserFromToken (\<lambda>req. Resolved \<lparr>status = 401, json_body = None\<rparr>) ''t''
          (initial [''authToken'' \<mapsto> ''t''])) = Inr ()
   \<and> getToken (snd (fetchUserFromToken (\<lambda>req. Resolved \<lparr>status = 401, json_body = None\<rparr>) ''t''
          (initial [''authToken'' \<mapsto> ''t'']))) = None
   \<and> user (snd (fetchUserFromToken (\<lambda>req. Resolved \<lparr>status = 401, json_body = None\<rparr>) ''t''
          (initial [''authToken'' \<mapsto> ''t'']))) = Json JNull
   \<and> user (snd (fetchUserFromToken
          (\<lambda>req. Resolved \<lparr>status = 200,
                    json_body = Some (JArr [JObj [(''user'', JNum ''1'')]])\<rparr>) ''t''
          (initial [''authToken'' \<mapsto> ''t'']))) = Undefined
   \<and> storage (snd (fetchUserFromToken
          (\<lambda>req. Resolved \<lparr>status = 200,
                    json_body = Some (JArr [JObj [(''user'', JNum ''1'')]])\<rparr>) ''t''
          (initial [''authToken'' \<mapsto> ''t'']))) = [''authToken'' \<mapsto> ''t'']
   \<and> effects (snd (fetchUserFromToken
          (\<lambda>req. Resolved \<lparr>status = 200,
                    json_body = Some (JArr [JObj [(''user'', JNum ''1'')]])\<rparr>) ''t''
          (initial [''authToken'' \<mapsto> ''t'']))) = [Fetch (me_request ''t'')]"
  using C1_restore_failure_clears
    [where net = "\<lambda>req. Resolved \<lparr>status = 401, json_body = None\<rparr>" and token = "''t''"
       and st = "initial [''authToken'' \<mapsto> ''t'']"]
    C1_restore_failure_clears
    [where net = "\<lambda>req. Resolved \<lparr>status = 200,
                    json_body = Some (JArr [JObj [(''user'', JNum ''1'')]])\<rparr>"
       and token = "''t''" and st = "initial [''authToken'' \<mapsto> ''t'']"]
  by (simp add: ok_def initial_def)

text \<open>
  Claim C1 as stated fails: it asks for the same clearing on every outcome that is not a
  well-formed success. A status 200 whose body is the JSON object \<^verbatim>\<open>{}\<close> is no
  well-formed success, since it carries no user. Nothing is thrown on it, so the
  \<^verbatim>\<open>catch\<close> does not run: the token \<^verbatim>\<open>t\<close> stays in the store, and \<^verbatim>\<open>user\<close> becomes
  \<^verbatim>\<open>undefined\<close>.
\<close>

theorem C1_counterexample:
  "\<not> me_success (Resolved \<lparr>status = 200, json_body = Some (JObj [])\<rparr>)
   \<and> getToken (snd (fetchUserFromToken
         (\<lambda>req. Resolved \<lparr>status = 200, json_body = Some (JObj [])\<rparr>) ''t''
         (initial [''authToken'' \<mapsto> ''t'']))) = Some ''t''
   \<and> user (snd (fetchUserFromToken
         (\<lambda>req. Resolved \<lparr>status = 200, json_body = Some (JObj [])\<rparr>) ''t''
         (initial [''authToken'' \<mapsto> ''t'']))) = Undefined"
  by (simp add: provider_defs me_success_def ok_def initial_def)

section \<open>Login\<close>

text \<open>
  Claim C2. When the server answers \<^verbatim>\<open>login(email, password)\<close> with a 2xx status and a
  body \<^verbatim>\<open>{token, user}\<close>, the token a string and the user a \<^verbatim>\<open>User\<close>, the call resolves,
  \<^verbatim>\<open>isAuthenticated\<close> is true, \<^verbatim>\<open>user\<close> is the returned principal and the token store
  holds the returned token.
\<close>

theorem C2_login_success:
  assumes "net (login_request email password) = Resolved r"
    and "ok r"
    and "json_body r = Some (JObj kvs)"
    and "map_of kvs ''token'' = Some (JStr t)"
    and "map_of kvs ''user'' = Some u"
    and "is_User u"
  shows "fst (login net email password st) = Inr ()
         \<and> isAuthenticated (snd (login net email password st))
         \<and> user (snd (login net email password st)) = Json u
         \<and> getToken (snd (login net email password st)) = Some t"
  using assms by (cases u) (auto simp: provider_defs)

text \<open>An instance: Ann logs in on a fresh page and receives the token \<^verbatim>\<open>t1\<close>.\<close>

theorem C2_login_success_witness:
  "fst (login (\<lambda>req. Resolved \<lparr>status = 200,
                  json_body = Some (JObj [(''token'', JStr ''t1''), (''user'', ann)])\<rparr>)
          ''ann@x.com'' ''pw'' (initial Map.empty)) = Inr ()
   \<and> isAuthenticated (snd (login (\<lambda>req. Resolved \<lparr>status = 200,
                  json_body = Some (JObj [(''token'', JStr ''t1''), (''user'', ann)])\<rparr>)
          ''ann@x.com'' ''pw'' (initial Map.empty)))
   \<and> user (snd (login (\<lambda>req. Resolved \<lparr>status = 200,
                  json_body = Some (JObj [(''token'', JStr ''t1''), (''user'', ann)])\<rparr>)
          ''ann@x.com'' ''pw'' (initial Map.empty))) = Json ann
   \<and> getToken (snd (login (\<lambda>req. Resolved \<lparr>status = 200,
                  json_body = Some (JObj [(''token'', JStr ''t1''), (''user'', ann)])\<rparr>)
          ''ann@x.com'' ''pw'' (initial Map.empty))) = Some ''t1''"
  using C2_login_success
    [where net = "\<lambda>req. Resolved \<lparr>status = 200,
                  json_body = Some (JObj [(''token'', JStr ''t1''), (''user'', ann)])\<rparr>"
       and email = "''ann@x.com''" and password = "''pw''" and st = "initial Map.empty"
       and kvs = "[(''token'', JStr ''t1''), (''user'', ann)]" and t = "''t1''" and u = ann]
  by (simp add: ok_def is_User_ann)

section \<open>Logout\<close>

text \<open>
  Claim C3. From any state, \<^verbatim>\<open>logout()\<close> leaves \<^verbatim>\<open>user\<close> \<^verbatim>\<open>null\<close>, \<^verbatim>\<open>isAuthenticated\<close>
  false and no token in the store; it sends no request (its only effect is the removal
  of the token), and it has no failing path: \<open>logout\<close> is a total function to the next
  state, and running it returns normally.
\<close>

theorem C3_logout:
  "fst (run net Logout st) = Inr ()
   \<and> snd (run net Logout st) = logout st
   \<and> user (logout st) = Json JNull
   \<and> \<not> isAuthenticated (logout st)
   \<and> getToken (logout st) = None
   \<and> requests (logout st) = requests st
   \<and> effects (logout st) = effects st @ [RemoveItem ''authToken'']"
  by (simp add: provider_defs)

text \<open>An instance: Ann, logged in with the token \<^verbatim>\<open>t1\<close>, logs out.\<close>

theorem C3_logout_witness:
  "user (logout \<lparr>user = Json ann, storage = [''authToken'' \<mapsto> ''t1''], effects = []\<rparr>) = Json JNull
   \<and> \<not> isAuthenticated (logout \<lparr>user = Json ann, storage = [''authToken'' \<mapsto> ''t1''], effects = []\<rparr>)
   \<and> getToken (logout \<lparr>user = Json ann, storage = [''authToken'' \<mapsto> ''t1''], effects = []\<rparr>) = None
   \<and> requests (logout \<lparr>user = Json ann, storage = [''authToken'' \<mapsto> ''t1''], effects = []\<rparr>) = []
   \<and> effects (logout \<lparr>user = Json ann, storage = [''authToken'' \<mapsto> ''t1''], effects = []\<rparr>)
       = [RemoveItem ''authToken'']"
  using C3_logout [where st = "\<lparr>user = Json ann, storage = [''authToken'' \<mapsto> ''t1''], effects = []\<rparr>"]
  by (simp add: requests_def)

section \<open>Answers that reject the credentials\<close>

text \<open>
  Claim C4, as the code has it. When the server answers \<^verbatim>\<open>login(email, password)\<close> with
  a status that is not 2xx, the call fails, \<^verbatim>\<open>user\<close> is left as it was and nothing is
  written to or removed from the store. When moreover the body is valid JSON other than
  \<^verbatim>\<open>null\<close>: if its \<^verbatim>\<open>message\<close> property is absent or falsy, the failure is an
  \<^verbatim>\<open>Error\<close> with the message \<^verbatim>\<open>Login failed\<close>; if it is truthy, the failure is an
  \<^verbatim>\<open>Error\<close> whose message is that property converted to a string, or the \<^verbatim>\<open>TypeError\<close>
  of that conversion when it throws. In particular a non-empty string message is carried
  as it is.
\<close>

theorem C4_login_rejected:
  assumes "net (login_request email password) = Resolved r" and "\<not> ok r"
  shows "(\<exists>e. fst (login net email password st) = Inl e)
         \<and> user (snd (login net email password st)) = user st
         \<and> storage (snd (login net email password st)) = storage st
         \<and> store_writes (snd (login net email password st)) = store_writes st
         \<and> (\<forall>d. json_body r = Some d \<and> d \<noteq> JNull \<longrightarrow>
              (\<exists>m. get_prop d ''message'' = Inr m
                 \<and> (\<not> truthy m \<longrightarrow>
                      fst (login net email password st) = Inl (Error ''Login failed''))
                 \<and> (truthy m \<longrightarrow>
                      fst (login net email password st)
                        = (case to_string m of Inl e \<Rightarrow> Inl e | Inr s \<Rightarrow> Inl (Error s)))))
         \<and> (\<forall>kvs msg. json_body r = Some (JObj kvs) \<and> map_of kvs ''message'' = Some (JStr msg)
                       \<and> msg \<noteq> [] \<longrightarrow>
              fst (login net email password st) = Inl (Error msg))"
proof (cases "json_body r")
  case None
  with assms show ?thesis by (simp add: provider_defs)
next
  case (Some d)
  with assms show ?thesis
    by (cases d) (auto simp: provider_defs js_or_def split: option.splits sum.splits)
qed

text \<open>Three instances, each on status 401 while an older token \<^verbatim>\<open>t0\<close> is stored: the
  body \<^verbatim>\<open>{message: "Invalid credentials"}\<close>; the body \<^verbatim>\<open>{}\<close>, with no message; and the
  body \<^verbatim>\<open>{message: {toString: 1}}\<close>, whose message cannot be converted.\<close>

theorem C4_login_rejected_witness:
  "fst (login (\<lambda>req. Resolved \<lparr>status = 401,
                  json_body = Some (JObj [(''message'', JStr ''Invalid credentials'')])\<rparr>)
          ''ann@x.com'' ''wrong'' (initial [''authToken'' \<mapsto> ''t0'']))
     = Inl (Error ''Invalid credentials'')
   \<and> user (snd (login (\<lambda>req. Resolved \<lparr>status = 401,
                  json_body = Some (JObj [(''message'', JStr ''Invalid credentials'')])\<rparr>)
          ''ann@x.com'' ''wrong'' (initial [''authToken'' \<mapsto> ''t0'']))) = Json JNull
   \<and> getToken (snd (login (\<lambda>req. Resolved \<lparr>status = 401,
                  json_body = Some (JObj [(''message'', JStr ''Invalid credentials'')])\<rparr>)
          ''ann@x.com'' ''wrong'' (initial [''authToken'' \<mapsto> ''t0'']))) = Some ''t0''
   \<and> fst (login (\<lambda>req. Resolved \<lparr>status = 401, json_body = Some (JObj [])\<rparr>)
          ''ann@x.com'' ''wrong'' (initial [''authToken'' \<mapsto> ''t0'']))
     = Inl (Error ''Login failed'')
   \<and> fst (login (\<lambda>req. Resolved \<lparr>status = 401,
                  json_body = Some (JObj [(''message'', JObj [(''toString'', JNum ''1'')])])\<rparr>)
          ''ann@x.com'' ''wrong'' (initial [''authToken'' \<mapsto> ''t0'']))
     = Inl TypeError"
  using C4_login_rejected
    [where net = "\<lambda>req. Resolved \<lparr>status = 401,
                  json_body = Some (JObj [(''message'', JStr ''Invalid credentials'')])\<rparr>"
       and email = "''ann@x.com''" and password = "''wrong''"
       and st = "initial [''authToken'' \<mapsto> ''t0'']"]
    C4_login_rejected
    [where net = "\<lambda>req. Resolved \<lparr>status = 401, json_body = Some (JObj [])\<rparr>"
       and email = "''ann@x.com''" and password = "''wrong''"
       and st = "initial [''authToken'' \<mapsto> ''t0'']"]
    C4_login_rejected
    [where net = "\<lambda>req. Resolved \<lparr>status = 401,
                  json_body = Some (JObj [(''message'', JObj [(''toString'', JNum ''1'')])])\<rparr>"
       and email = "''ann@x.com''" and password = "''wrong''"
       and st = "initial [''authToken'' \<mapsto> ''t0'']"]
  by (simp add: ok_def initial_def getToken_def)

text \<open>
  Claim C4 as stated fails: it promises the generic message whenever the server supplies
  none. On status 401 with a body that is not JSON, \<^verbatim>\<open>response.json()\<close> on line 88
  rejects before line 89 builds any \<^verbatim>\<open>Error\<close>: the caller receives the \<^verbatim>\<open>SyntaxError\<close>.
\<close>

theorem C4_counterexample:
  "fst (login (\<lambda>req. Resolved \<lparr>status = 401, json_body = None\<rparr>)
          ''ann@x.com'' ''wrong'' (initial Map.empty)) = Inl SyntaxError
   \<and> fst (login (\<lambda>req. Resolved \<lparr>status = 401, json_body = None\<rparr>)
          ''ann@x.com'' ''wrong'' (initial Map.empty)) \<noteq> Inl (Error ''Login failed'')"
  by (simp add: provider_defs ok_def)

section \<open>Bodies that are not JSON\<close>

text \<open>
  Claim C8. In \<^verbatim>\<open>login\<close> and in \<^verbatim>\<open>register\<close>, a status that is not 2xx with a body that
  does not parse as JSON makes the call fail with the parse error itself, not with an
  \<^verbatim>\<open>Error\<close> built from a message.
\<close>

theorem C8_error_body_unparseable:
  assumes "\<not> ok r" and "json_body r = None"
  shows "(net (login_request email password) = Resolved r \<longrightarrow>
            fst (login net email password st) = Inl SyntaxError
            \<and> (\<forall>msg. fst (login net email password st) \<noteq> Inl (Error msg)))
         \<and> (net (register_request name email password) = Resolved r \<longrightarrow>
            fst (register net name email password st) = Inl SyntaxError
            \<and> (\<forall>msg. fst (register net name email password st) \<noteq> Inl (Error msg)))"
  using assms by (simp add: provider_defs)

text \<open>An instance: status 500 with a body that is not JSON.\<close>

theorem C8_error_body_unparseable_witness:
  "fst (login (\<lambda>req. Resolved \<lparr>status = 500, json_body = None\<rparr>) ''ann@x.com'' ''pw''
          (initial Map.empty)) = Inl SyntaxError
   \<and> fst (register (\<lambda>req. Resolved \<lparr>status = 500, json_body = None\<rparr>) ''Ann'' ''ann@x.com'' ''pw''
          (initial Map.empty)) = Inl SyntaxError"
  using C8_error_body_unparseable
    [where r = "\<lparr>status = 500, json_body = None\<rparr>"
       and net = "\<lambda>req. Resolved \<lparr>status = 500, json_body = None\<rparr>"
       and email = "''ann@x.com''" and password = "''pw''" and name = "''Ann''"
       and st = "initial Map.empty"]
  by (simp add: ok_def)

text \<open>
  Claim C10. In \<^verbatim>\<open>login\<close> and in \<^verbatim>\<open>register\<close>, a 2xx status with a body that does not
  parse as JSON makes the call fail with the parse error, and neither \<^verbatim>\<open>user\<close> nor the
  store is touched: \<^verbatim>\<open>saveToken\<close> and \<^verbatim>\<open>setUser\<close> come after the body has parsed.
\<close>

theorem C10_success_body_unparseable:
  assumes "ok r" and "json_body r = None"
  shows "(net (login_request email password) = Resolved r \<longrightarrow>
            fst (login net email password st) = Inl SyntaxError
            \<and> user (snd (login net email password st)) = user st
            \<and> storage (snd (login net email password st)) = storage st
            \<and> store_writes (snd (login net email password st)) = store_writes st)
         \<and> (net (register_request name email password) = Resolved r \<longrightarrow>
            fst (register net name email password st) = Inl SyntaxError
            \<and> user (snd (register net name email password st)) = user st
            \<and> storage (snd (register net name email password st)) = storage st
            \<and> store_writes (snd (register net name email password st)) = store_writes st)"
  using assms by (simp add: provider_defs)

text \<open>An instance: status 200 with a body that is not JSON, while Ann is logged in with
  the token \<^verbatim>\<open>t1\<close>.\<close>

theorem C10_success_body_unparseable_witness:
  "fst (login (\<lambda>req. Resolved \<lparr>status = 200, json_body = None\<rparr>) ''ann@x.com'' ''pw''
          \<lparr>user = Json ann, storage = [''authToken'' \<mapsto> ''t1''], effects = []\<rparr>) = Inl SyntaxError
   \<and> user (snd (login (\<lambda>req. Resolved \<lparr>status = 200, json_body = None\<rparr>) ''ann@x.com'' ''pw''
          \<lparr>user = Json ann, storage = [''authToken'' \<mapsto> ''t1''], effects = []\<rparr>)) = Json ann
   \<and> storage (snd (register (\<lambda>req. Resolved \<lparr>status = 200, json_body = None\<rparr>)
          ''Ann'' ''ann@x.com'' ''pw''
          \<lparr>user = Json ann, storage = [''authToken'' \<mapsto> ''t1''], effects = []\<rparr>))
       = [''authToken'' \<mapsto> ''t1'']
   \<and> store_writes (snd (register (\<lambda>req. Resolved \<lparr>status = 200, json_body = None\<rparr>)
          ''Ann'' ''ann@x.com'' ''pw''
          \<lparr>user = Json ann, storage = [''authToken'' \<mapsto> ''t1''], effects = []\<rparr>)) = []"
  using C10_success_body_unparseable
    [where r = "\<lparr>status = 200, json_body = None\<rparr>"
       and net = "\<lambda>req. Resolved \<lparr>status = 200, json_body = None\<rparr>"
       and email = "''ann@x.com''" and password = "''pw''" and name = "''Ann''"
       and st = "\<lparr>user = Json ann, storage = [''authToken'' \<mapsto> ''t1''], effects = []\<rparr>"]
  by (simp add: ok_def store_writes_def)

section \<open>Restoration that succeeds, and mounting without a token\<close>

text \<open>
  Claim C6. When \<^verbatim>\<open>GET /api/auth/me\<close> answers \<^verbatim>\<open>fetchUserFromToken(token)\<close> with a 2xx
  status and a body \<^verbatim>\<open>{user}\<close>, \<^verbatim>\<open>user\<close> is set to the returned principal and the store
  is as it was: the only effect is the request itself, with no write and no removal.
\<close>

theorem C6_restore_success:
  assumes "net (me_request token) = Resolved r"
    and "ok r"
    and "json_body r = Some (JObj kvs)"
    and "map_of kvs ''user'' = Some u"
  shows "fst (fetchUserFromToken net token st) = Inr ()
         \<and> user (snd (fetchUserFromToken net token st)) = Json u
         \<and> storage (snd (fetchUserFromToken net token st)) = storage st
         \<and> store_writes (snd (fetchUserFromToken net token st)) = store_writes st
         \<and> effects (snd (fetchUserFromToken net token st)) = effects st @ [Fetch (me_request token)]"
  using assms by (simp add: provider_defs)

text \<open>An instance: the stored token \<^verbatim>\<open>t1\<close> is recognised as Ann's.\<close>

theorem C6_restore_success_witness:
  "user (snd (fetchUserFromToken
      (\<lambda>req. Resolved \<lparr>status = 200, json_body = Some (JObj [(''user'', ann)])\<rparr>) ''t1''
      (initial [''authToken'' \<mapsto> ''t1'']))) = Json ann
   \<and> storage (snd (fetchUserFromToken
      (\<lambda>req. Resolved \<lparr>status = 200, json_body = Some (JObj [(''user'', ann)])\<rparr>) ''t1''
      (initial [''authToken'' \<mapsto> ''t1'']))) = [''authToken'' \<mapsto> ''t1'']
   \<and> effects (snd (fetchUserFromToken
      (\<lambda>req. Resolved \<lparr>status = 200, json_body = Some (JObj [(''user'', ann)])\<rparr>) ''t1''
      (initial [''authToken'' \<mapsto> ''t1'']))) = [Fetch (me_request ''t1'')]"
  using C6_restore_success
    [where net = "\<lambda>req. Resolved \<lparr>status = 200, json_body = Some (JObj [(''user'', ann)])\<rparr>"
       and token = "''t1''" and st = "initial [''authToken'' \<mapsto> ''t1'']"
       and kvs = "[(''user'', ann)]" and u = ann]
  by (simp add: ok_def initial_def)

text \<open>
  Claim C9. When the store holds no token, the mount effect changes nothing: no request
  is sent and \<^verbatim>\<open>user\<close> stays what it was, which at mount is \<^verbatim>\<open>null\<close>.
\<close>

theorem C9_initialize_without_token:
  assumes "getToken st = None"
  shows "initialize net st = st
         \<and> requests (initialize net st) = requests st
         \<and> user (initialize net st) = user st
         \<and> (user st = Json JNull \<longrightarrow> user (initialize net st) = Json JNull)"
  using assms by (simp add: initialize_def)

text \<open>An instance: a first visit, with an empty \<^verbatim>\<open>localStorage\<close> and a server that
  would answer.\<close>

theorem C9_initialize_without_token_witness:
  "initialize (\<lambda>req. Resolved \<lparr>status = 200, json_body = Some (JObj [(''user'', ann)])\<rparr>)
     (initial Map.empty) = initial Map.empty
   \<and> requests (initialize (\<lambda>req. Resolved \<lparr>status = 200, json_body = Some (JObj [(''user'', ann)])\<rparr>)
     (initial Map.empty)) = []
   \<and> user (initialize (\<lambda>req. Resolved \<lparr>status = 200, json_body = Some (JObj [(''user'', ann)])\<rparr>)
     (initial Map.empty)) = Json JNull"
  using C9_initialize_without_token
    [where st = "initial Map.empty"
       and net = "\<lambda>req. Resolved \<lparr>status = 200, json_body = Some (JObj [(''user'', ann)])\<rparr>"]
  by (simp add: getToken_def initial_def requests_def)

section \<open>Consistency of token and user\<close>

lemma auth_settle_consistent:
  "consistent st \<Longrightarrow> consistent (snd (auth_settle fallback outcome st))"
  by (auto simp: consistent_def auth_settle_def saveToken_def setUser_def getToken_def
           split: fetch_outcome.splits option.splits sum.splits)

lemma fetchUserFromToken_settle_consistent:
  "getToken st \<noteq> None \<Longrightarrow> consistent (snd (fetchUserFromToken_settle outcome st))"
  by (auto simp: consistent_def fetchUserFromToken_settle_def fetchUserFromToken_try_def
                 removeToken_def setUser_def getToken_def
           split: fetch_outcome.splits option.splits sum.splits)

lemma getToken_fetch: "getToken (snd (fetch net req st)) = getToken st"
  by (simp add: fetch_def getToken_def)

lemma consistent_fetch: "consistent (snd (fetch net req st)) = consistent st"
  by (simp add: fetch_def getToken_def consistent_def)

lemma login_unfold:
  "login net email password st
   = auth_settle ''Login failed'' (net (login_request email password))
       (snd (fetch net (login_request email password) st))"
  by (simp add: login_def login_settle_def fetch_def)

lemma register_unfold:
  "register net name email password st
   = auth_settle ''Registration failed'' (net (register_request name email password))
       (snd (fetch net (register_request name email password) st))"
  by (simp add: register_def register_settle_def fetch_def)

lemma fetchUserFromToken_unfold:
  "fetchUserFromToken net token st
   = fetchUserFromToken_settle (net (me_request token)) (snd (fetch net (me_request token) st))"
  by (simp add: fetchUserFromToken_def fetch_def)

lemma fetchUserFromToken_consistent:
  assumes "getToken st \<noteq> None"
  shows "consistent (snd (fetchUserFromToken net token st))"
proof -
  have "getToken (snd (fetch net (me_request token) st)) \<noteq> None"
    using assms by (simp add: getToken_fetch)
  then show ?thesis
    by (simp add: fetchUserFromToken_unfold fetchUserFromToken_settle_consistent)
qed

lemma login_consistent:
  "consistent st \<Longrightarrow> consistent (snd (login net email password st))"
  by (simp add: login_unfold auth_settle_consistent consistent_fetch)

lemma register_consistent:
  "consistent st \<Longrightarrow> consistent (snd (register net name email password st))"
  by (simp add: register_unfold auth_settle_consistent consistent_fetch)

lemma initialize_consistent:
  assumes "consistent st"
  shows "consistent (initialize net st)"
proof (cases "getToken st")
  case None
  with assms show ?thesis by (simp add: initialize_def)
next
  case (Some token)
  then have "consistent (snd (fetchUserFromToken net token st))"
    by (simp add: fetchUserFromToken_consistent)
  with assms Some show ?thesis by (simp add: initialize_def)
qed

lemma logout_consistent: "consistent (logout st)"
  by (simp add: consistent_def logout_def setUser_def)

lemma run_consistent: "consistent st \<Longrightarrow> consistent (snd (run net x st))"
  by (cases x)
     (simp_all add: initialize_consistent login_consistent register_consistent logout_consistent)

lemma run_all_consistent: "consistent st \<Longrightarrow> consistent (run_all xs st)"
proof (induction xs arbitrary: st)
  case Nil
  then show ?case by simp
next
  case (Cons a xs)
  obtain net x where a: "a = (net, x)" by (cases a)
  from Cons.prems have "consistent (snd (run net x st))" by (rule run_consistent)
  then have "consistent (run_all xs (snd (run net x st)))" by (rule Cons.IH)
  with a show ?case by simp
qed

lemma consistent_initial: "consistent (initial store)"
  by (simp add: consistent_def initial_def)

lemma auth_settle_resolved:
  assumes "fst (auth_settle fallback outcome st) = Inr ()"
  shows "\<exists>r d tok u s. outcome = Resolved r \<and> ok r \<and> json_body r = Some d
           \<and> get_prop d ''token'' = Inr tok \<and> get_prop d ''user'' = Inr u
           \<and> to_string tok = Inr s
           \<and> getToken (snd (auth_settle fallback outcome st)) = Some s
           \<and> user (snd (auth_settle fallback outcome st)) = u"
  using assms
  by (auto simp: auth_settle_def saveToken_def setUser_def getToken_def
           split: fetch_outcome.splits option.splits sum.splits if_splits)

text \<open>
  Claim C5, as the code has it. Run to completion one at a time, the mount effect,
  \<^verbatim>\<open>login\<close>, \<^verbatim>\<open>register\<close> and \<^verbatim>\<open>logout\<close> each keep token and user consistent, so every
  state reached that way from mount is consistent. \<^verbatim>\<open>fetchUserFromToken\<close> leaves a
  consistent state whenever the store holds a token when it runs. A \<^verbatim>\<open>login\<close> or
  \<^verbatim>\<open>register\<close> that resolves has stored the response's \<^verbatim>\<open>token\<close>, converted to a
  string, and set \<^verbatim>\<open>user\<close> to the response's \<^verbatim>\<open>user\<close> in the same step; a well-formed
  success of the restoration sets the user and leaves the token as it was.
\<close>

theorem C5_consistency:
  "(consistent st \<longrightarrow> consistent (snd (run net x st)))
   \<and> consistent (run_all xs (initial store))
   \<and> (getToken st \<noteq> None \<longrightarrow> consistent (snd (fetchUserFromToken net token st)))
   \<and> (fst (login net email password st) = Inr () \<longrightarrow>
        (\<exists>r d tok u s. net (login_request email password) = Resolved r \<and> json_body r = Some d
           \<and> get_prop d ''token'' = Inr tok \<and> get_prop d ''user'' = Inr u
           \<and> to_string tok = Inr s
           \<and> getToken (snd (login net email password st)) = Some s
           \<and> user (snd (login net email password st)) = u))
   \<and> (fst (register net name email password st) = Inr () \<longrightarrow>
        (\<exists>r d tok u s. net (register_request name email password) = Resolved r
           \<and> json_body r = Some d
           \<and> get_prop d ''token'' = Inr tok \<and> get_prop d ''user'' = Inr u
           \<and> to_string tok = Inr s
           \<and> getToken (snd (register net name email password st)) = Some s
           \<and> user (snd (register net name email password st)) = u))
   \<and> (me_success (net (me_request token)) \<longrightarrow>
        getToken (snd (fetchUserFromToken net token st)) = getToken st
        \<and> isAuthenticated (snd (fetchUserFromToken net token st)))"
proof -
  have a: "consistent st \<longrightarrow> consistent (snd (run net x st))"
    by (simp add: run_consistent)
  have b: "consistent (run_all xs (initial store))"
    by (simp add: run_all_consistent consistent_initial)
  have c: "getToken st \<noteq> None \<longrightarrow> consistent (snd (fetchUserFromToken net token st))"
    by (simp add: fetchUserFromToken_consistent)
  have d: "fst (login net email password st) = Inr () \<longrightarrow>
        (\<exists>r d tok u s. net (login_request email password) = Resolved r \<and> json_body r = Some d
           \<and> get_prop d ''token'' = Inr tok \<and> get_prop d ''user'' = Inr u
           \<and> to_string tok = Inr s
           \<and> getToken (snd (login net email password st)) = Some s
           \<and> user (snd (login net email password st)) = u)"
    unfolding login_unfold using auth_settle_resolved by blast
  have e: "fst (register net name email password st) = Inr () \<longrightarrow>
        (\<exists>r d tok u s. net (register_request name email password) = Resolved r
           \<and> json_body r = Some d
           \<and> get_prop d ''token'' = Inr tok \<and> get_prop d ''user'' = Inr u
           \<and> to_string tok = Inr s
           \<and> getToken (snd (register net name email password st)) = Some s
           \<and> user (snd (register net name email password st)) = u)"
    unfolding register_unfold using auth_settle_resolved by blast
  have f: "me_success (net (me_request token)) \<longrightarrow>
        getToken (snd (fetchUserFromToken net token st)) = getToken st
        \<and> isAuthenticated (snd (fetchUserFromToken net token st))"
    by (auto simp: me_success_def provider_defs is_User_truthy
             split: fetch_outcome.splits option.splits json.splits)
  from a b c d e f show ?thesis by blast
qed

text \<open>An instance: a page is loaded with the token \<^verbatim>\<open>t0\<close> stored, and the server
  answers every request with status 200 and \<^verbatim>\<open>{token: "t1", user: Ann}\<close>.\<close>

theorem C5_consistency_witness:
  "consistent (snd (run
       (\<lambda>req. Resolved \<lparr>status = 200,
                 json_body = Some (JObj [(''token'', JStr ''t1''), (''user'', ann)])\<rparr>)
       (Login ''ann@x.com'' ''pw'') (initial [''authToken'' \<mapsto> ''t0''])))
   \<and> consistent (run_all
       [(\<lambda>req. Resolved \<lparr>status = 200,
                 json_body = Some (JObj [(''token'', JStr ''t1''), (''user'', ann)])\<rparr>, Initialize),
        (\<lambda>req. Rejected, Logout),
        (\<lambda>req. Resolved \<lparr>status = 409, json_body = Some (JObj [])\<rparr>,
           Register ''Ann'' ''ann@x.com'' ''pw'')]
       (initial [''authToken'' \<mapsto> ''t0'']))
   \<and> consistent (snd (fetchUserFromToken
       (\<lambda>req. Resolved \<lparr>status = 200,
                 json_body = Some (JObj [(''token'', JStr ''t1''), (''user'', ann)])\<rparr>)
       ''t0'' (initial [''authToken'' \<mapsto> ''t0''])))
   \<and> getToken (snd (login
       (\<lambda>req. Resolved \<lparr>status = 200,
                 json_body = Some (JObj [(''token'', JStr ''t1''), (''user'', ann)])\<rparr>)
       ''ann@x.com'' ''pw'' (initial [''authToken'' \<mapsto> ''t0'']))) = Some ''t1''
   \<and> user (snd (register
       (\<lambda>req. Resolved \<lparr>status = 200,
                 json_body = Some (JObj [(''token'', JStr ''t1''), (''user'', ann)])\<rparr>)
       ''Ann'' ''ann@x.com'' ''pw'' (initial [''authToken'' \<mapsto> ''t0'']))) = Json ann
   \<and> getToken (snd (fetchUserFromToken
       (\<lambda>req. Resolved \<lparr>status = 200,
                 json_body = Some (JObj [(''token'', JStr ''t1''), (''user'', ann)])\<rparr>)
       ''t0'' (initial [''authToken'' \<mapsto> ''t0'']))) = Some ''t0''"
  using C5_consistency
    [where net = "\<lambda>req. Resolved \<lparr>status = 200,
                 json_body = Some (JObj [(''token'', JStr ''t1''), (''user'', ann)])\<rparr>"
       and st = "initial [''authToken'' \<mapsto> ''t0'']"
       and x = "Login ''ann@x.com'' ''pw''"
       and xs = "[(\<lambda>req. Resolved \<lparr>status = 200,
                 json_body = Some (JObj [(''token'', JStr ''t1''), (''user'', ann)])\<rparr>, Initialize),
        (\<lambda>req. Rejected, Logout),
        (\<lambda>req. Resolved \<lparr>status = 409, json_body = Some (JObj [])\<rparr>,
           Register ''Ann'' ''ann@x.com'' ''pw'')]"
       and store = "[''authToken'' \<mapsto> ''t0'']"
       and token = "''t0''" and email = "''ann@x.com''" and password = "''pw''"
       and name = "''Ann''"]
  by (simp add: provider_defs consistent_def me_success_def ok_def initial_def is_User_ann)

text \<open>
  Claim C5 as stated fails for the restoration: its continuation runs when the response
  arrives, on the state as it then is. A page is loaded with the token \<^verbatim>\<open>t1\<close> stored;
  the mount effect reads it and sends the request (line 54); before the answer arrives
  \<^verbatim>\<open>logout()\<close> runs and removes the token; then the answer, a well-formed success, is
  handled (lines 58 to 65) and sets \<^verbatim>\<open>user\<close>. The state before that last step is
  consistent, the state after it is not: no token is stored, and \<^verbatim>\<open>user\<close> is Ann.
\<close>

theorem C5_counterexample:
  "consistent (logout (snd (fetch
       (\<lambda>req. Resolved \<lparr>status = 200, json_body = Some (JObj [(''user'', ann)])\<rparr>)
       (me_request ''t1'') (initial [''authToken'' \<mapsto> ''t1'']))))
   \<and> \<not> consistent (snd (fetchUserFromToken_settle
       (Resolved \<lparr>status = 200, json_body = Some (JObj [(''user'', ann)])\<rparr>)
       (logout (snd (fetch
          (\<lambda>req. Resolved \<lparr>status = 200, json_body = Some (JObj [(''user'', ann)])\<rparr>)
          (me_request ''t1'') (initial [''authToken'' \<mapsto> ''t1'']))))))"
  by (simp add: provider_defs consistent_def ok_def initial_def ann_def)

section \<open>The derived flag\<close>

text \<open>
  Claim C7, as the code has it. \<^verbatim>\<open>isAuthenticated\<close> is the truthiness of \<^verbatim>\<open>user\<close> and
  depends on nothing else in the state. Whenever \<^verbatim>\<open>user\<close> is \<^verbatim>\<open>null\<close> or an object, as
  every value of the declared type \<^verbatim>\<open>User | null\<close> is, it equals exactly: \<^verbatim>\<open>user\<close> is
  not \<^verbatim>\<open>null\<close>.
\<close>

theorem C7_isAuthenticated_derived:
  "isAuthenticated st = truthy (user st)
   \<and> (user st = Json JNull \<or> (\<exists>kvs. user st = Json (JObj kvs)) \<longrightarrow>
        isAuthenticated st = (user st \<noteq> Json JNull))
   \<and> (user st' = user st \<longrightarrow> isAuthenticated st' = isAuthenticated st)"
  by (auto simp: isAuthenticated_def)

text \<open>An instance: Ann logged in, before and after an unrelated change of the store.\<close>

theorem C7_isAuthenticated_derived_witness:
  "isAuthenticated \<lparr>user = Json ann, storage = [''authToken'' \<mapsto> ''t1''], effects = []\<rparr>
   \<and> isAuthenticated \<lparr>user = Json ann, storage = Map.empty, effects = []\<rparr>
      = isAuthenticated \<lparr>user = Json ann, storage = [''authToken'' \<mapsto> ''t1''], effects = []\<rparr>"
  using C7_isAuthenticated_derived
    [where st = "\<lparr>user = Json ann, storage = [''authToken'' \<mapsto> ''t1''], effects = []\<rparr>"
       and st' = "\<lparr>user = Json ann, storage = Map.empty, effects = []\<rparr>"]
  by (simp add: ann_def)

text \<open>
  Claim C7 as stated fails on a value outside the declared type, which line 96 stores
  unchecked. The server answers a login with status 200 and
  \<^verbatim>\<open>{token: "t1", user: ""}\<close>: afterwards \<^verbatim>\<open>user\<close> is the empty string, which is neither
  \<^verbatim>\<open>null\<close> nor \<^verbatim>\<open>undefined\<close>, and \<^verbatim>\<open>isAuthenticated\<close> is false.
\<close>

theorem C7_counterexample:
  "user (snd (login (\<lambda>req. Resolved \<lparr>status = 200,
                  json_body = Some (JObj [(''token'', JStr ''t1''), (''user'', JStr [])])\<rparr>)
          ''ann@x.com'' ''pw'' (initial Map.empty))) = Json (JStr [])
   \<and> \<not> isAuthenticated (snd (login (\<lambda>req. Resolved \<lparr>status = 200,
                  json_body = Some (JObj [(''token'', JStr ''t1''), (''user'', JStr [])])\<rparr>)
          ''ann@x.com'' ''pw'' (initial Map.empty)))"
  by (simp add: provider_defs ok_def initial_def)

end
